theory Spec2Isabelle
  imports Main "HOL-Library.Char_ord" "HOL-Library.List_Lexorder"
begin

section \<open>The data of DatabasesCommon.cpp\<close>

text \<open>
  The development embeds \<^verbatim>\<open>dbms/src/Databases/DatabasesCommon.cpp\<close>: the class
  \<^verbatim>\<open>DatabaseWithOwnTablesBase\<close>, which keeps the tables and the dictionary names of one
  database behind one mutex. Strings are byte strings; \<^verbatim>\<open>std::map\<close> and \<^verbatim>\<open>std::set\<close>
  over \<^verbatim>\<open>String\<close> iterate in the lexicographic order of their keys, which is the order
  that List_Lexorder gives lists over the byte order of Char_ord.
\<close>

type_synonym String = string

text \<open>The error codes the file declares (lines 25-32).\<close>

datatype ErrorCode =
    EMPTY_LIST_OF_COLUMNS_PASSED
  | TABLE_ALREADY_EXISTS
  | UNKNOWN_TABLE
  | LOGICAL_ERROR
  | DICTIONARY_ALREADY_EXISTS

text \<open>
  An exception is either a \<^verbatim>\<open>DB::Exception\<close> thrown by this file, with its message and
  code, or whatever a collaborator (the dictionary loader, a table) throws.
\<close>

datatype exception =
    Exception String ErrorCode
  | ExternalException String

type_synonym NamesAndTypes = "(String \<times> String) list"

text \<open>
  A non-null \<^verbatim>\<open>StoragePtr\<close>. A table attached by a caller is opaque and is identified by
  the address of its object; a dictionary view is what line 45 constructs:
  \<^verbatim>\<open>StorageDictionary::create(db_name, table_name, ColumnsDescription{columns}, context, true, dict_name)\<close>.
  A null \<^verbatim>\<open>StoragePtr\<close> is \<open>None\<close> of \<open>StoragePtr option\<close>.
\<close>

datatype StoragePtr =
    IStorage nat
  | StorageDictionary String String NamesAndTypes bool String

text \<open>
  Modelled from the spec: the header that declares \<^verbatim>\<open>Tables\<close> and \<^verbatim>\<open>Dictionaries\<close> is
  absent. The spec has a table map from names to handles and a set of dictionary names.
  The map is an association list and the set a list, both kept in key order without
  duplicates by the operations below (\<open>well_formed\<close>).
\<close>

type_synonym Tables = "(String \<times> StoragePtr) list"
type_synonym Dictionaries = "String list"

text \<open>
  Modelled from the spec: the classes \<^verbatim>\<open>DatabaseTablesSnapshotIterator\<close> and
  \<^verbatim>\<open>DatabaseDictionariesSnapshotIterator\<close> are declared in the absent header. The spec
  says a snapshot iterator is an immutable, point-in-time copy of a name-to-handle
  mapping or of a set of names: the object holds its own copy of the container it was
  constructed from.
\<close>

datatype snapshot =
    DatabaseTablesSnapshotIterator Tables
  | DatabaseDictionariesSnapshotIterator Dictionaries

text \<open>\<^verbatim>\<open>FilterByNameFunction\<close> is a \<^verbatim>\<open>std::function\<close>, which may be empty.\<close>

type_synonym FilterByNameFunction = "(String \<Rightarrow> bool) option"

text \<open>The calls this file makes into its collaborators.\<close>

datatype call =
    TryGetDictionary String
  | Reload String bool
  | StorageShutdown StoragePtr

text \<open>
  The state the operations run in. \<open>name\<close>, \<open>tables\<close>, \<open>dictionaries\<close> and \<open>mutex\<close> are
  the members of the class (\<open>mutex\<close> is true while a \<^verbatim>\<open>std::lock_guard\<close> holds it).
  \<open>heap\<close> holds the iterator objects that \<^verbatim>\<open>std::make_unique\<close> has allocated, addressed
  by their index. \<open>calls\<close> is the log of the calls made into collaborators, each with
  the value of \<open>mutex\<close> at the moment of the call.
\<close>

record state =
  name :: String
  tables :: Tables
  dictionaries :: Dictionaries
  mutex :: bool
  heap :: "snapshot list"
  calls :: "(call \<times> bool) list"

text \<open>
  What the operations need from \<^verbatim>\<open>Context\<close> and from code outside this file, taken as
  parameters: the loader's \<^verbatim>\<open>tryGetDictionary\<close> (the structure of the dictionary it
  returns, if it returns one), \<^verbatim>\<open>StorageDictionary::getNamesAndTypes\<close>, the loader's
  \<^verbatim>\<open>reload\<close> (the exception it throws, if it throws), and the configuration key
  \<^verbatim>\<open>dictionaries_lazy_load\<close> (\<open>None\<close> when the key is not set). The lookup answers with
  a dictionary or with none, as line 41 tests; it is the reload whose failure the callers
  see.
\<close>

record 's Context =
  tryGetDictionary :: "String \<Rightarrow> 's option"
  getNamesAndTypes :: "'s \<Rightarrow> NamesAndTypes"
  reload :: "String \<Rightarrow> bool \<Rightarrow> exception option"
  dictionaries_lazy_load :: "bool option"

text \<open>\<^verbatim>\<open>getConfigRef().getBool(key, default)\<close>.\<close>

definition getBool :: "bool option \<Rightarrow> bool \<Rightarrow> bool" where
  "getBool v default_value = (case v of Some b \<Rightarrow> b | None \<Rightarrow> default_value)"

section \<open>Containers, mutex, heap and call log\<close>

text \<open>\<^verbatim>\<open>std::map::emplace\<close>: inserts unless the key is present; the flag says which.\<close>

definition Tables_emplace :: "String \<Rightarrow> StoragePtr \<Rightarrow> Tables \<Rightarrow> Tables \<times> bool" where
  "Tables_emplace k v m =
     (case map_of m k of
        Some _ \<Rightarrow> (m, False)
      | None \<Rightarrow> (insort_key fst (k, v) m, True))"

text \<open>\<^verbatim>\<open>std::map::erase\<close> of the entry found under a key.\<close>

definition Tables_erase :: "String \<Rightarrow> Tables \<Rightarrow> Tables" where
  "Tables_erase k m = filter (\<lambda>kv. fst kv \<noteq> k) m"

text \<open>\<^verbatim>\<open>std::set::emplace\<close> and \<^verbatim>\<open>std::set::erase\<close>.\<close>

definition Dictionaries_emplace :: "String \<Rightarrow> Dictionaries \<Rightarrow> Dictionaries \<times> bool" where
  "Dictionaries_emplace k d = (if k \<in> set d then (d, False) else (insort k d, True))"

definition Dictionaries_erase :: "String \<Rightarrow> Dictionaries \<Rightarrow> Dictionaries" where
  "Dictionaries_erase k d = filter (\<lambda>x. x \<noteq> k) d"

definition lock :: "state \<Rightarrow> state" where
  "lock s = s\<lparr>mutex := True\<rparr>"

definition unlock :: "state \<Rightarrow> state" where
  "unlock s = s\<lparr>mutex := False\<rparr>"

definition record_call :: "call \<Rightarrow> state \<Rightarrow> state" where
  "record_call c s = s\<lparr>calls := calls s @ [(c, mutex s)]\<rparr>"

text \<open>
  \<^verbatim>\<open>std::make_unique\<close> of a snapshot iterator: a new object at a new address, holding the
  copy.
\<close>

definition make_unique :: "snapshot \<Rightarrow> state \<Rightarrow> nat \<times> state" where
  "make_unique obj s = (length (heap s), s\<lparr>heap := heap s @ [obj]\<rparr>)"

text \<open>
  Modelled from the spec: \<^verbatim>\<open>getDatabaseName\<close> is declared in the absent header; the spec
  identifies a database by one name, the member \<open>name\<close>.
\<close>

definition getDatabaseName :: "state \<Rightarrow> String" where
  "getDatabaseName s = name s"

section \<open>The operations\<close>

text \<open>Lines 37-48.\<close>

definition getDictionaryStorage ::
  "'s Context \<Rightarrow> String \<Rightarrow> String \<Rightarrow> state \<Rightarrow> StoragePtr option \<times> state" where
  "getDictionaryStorage context table_name db_name s =
     (let dict_name = db_name @ ''.'' @ table_name;
          s1 = record_call (TryGetDictionary dict_name) s
      in case tryGetDictionary context dict_name of
           Some dictionary_structure \<Rightarrow>
             (let columns = getNamesAndTypes context dictionary_structure
              in (Some (StorageDictionary db_name table_name columns True dict_name), s1))
         | None \<Rightarrow> (None, s1))"

text \<open>Lines 52-58.\<close>

definition isTableExist :: "String \<Rightarrow> state \<Rightarrow> bool \<times> state" where
  "isTableExist table_name s0 =
     (let s1 = lock s0
      in (map_of (tables s1) table_name \<noteq> None \<or> table_name \<in> set (dictionaries s1),
          unlock s1))"

text \<open>Lines 60-66.\<close>

definition isDictionaryExist :: "String \<Rightarrow> state \<Rightarrow> bool \<times> state" where
  "isDictionaryExist dictionary_name s0 =
     (let s1 = lock s0
      in (dictionary_name \<in> set (dictionaries s1), unlock s1))"

text \<open>Lines 68-81. The guard lives to the end of the function, across line 77.\<close>

definition tryGetTable :: "'s Context \<Rightarrow> String \<Rightarrow> state \<Rightarrow> StoragePtr option \<times> state" where
  "tryGetTable context table_name s0 =
     (let s1 = lock s0
      in case map_of (tables s1) table_name of
           None \<Rightarrow>
             if table_name \<in> set (dictionaries s1)
             then (let (res, s2) = getDictionaryStorage context table_name (getDatabaseName s1) s1
                   in (res, unlock s2))
             else (None, unlock s1)
         | Some storage \<Rightarrow> (Some storage, unlock s1))"

text \<open>The loop of lines 89-91, over the dictionary names still to visit.\<close>

fun dictionary_tables_loop ::
  "'s Context \<Rightarrow> Dictionaries \<Rightarrow> Tables \<Rightarrow> state \<Rightarrow> Tables \<times> state" where
  "dictionary_tables_loop context [] tables_copy s = (tables_copy, s)"
| "dictionary_tables_loop context (dictionary_name # rest) tables_copy s =
     (case getDictionaryStorage context dictionary_name (getDatabaseName s) s of
        (Some dictionary_storage, s') \<Rightarrow>
          dictionary_tables_loop context rest
            (fst (Tables_emplace dictionary_name dictionary_storage tables_copy)) s'
      | (None, s') \<Rightarrow> dictionary_tables_loop context rest tables_copy s')"

text \<open>The loop of lines 96-98 (and of lines 114-116), over the table entries still to visit.\<close>

fun filter_tables_loop :: "(String \<Rightarrow> bool) \<Rightarrow> Tables \<Rightarrow> Tables \<Rightarrow> Tables" where
  "filter_tables_loop filter_by_table_name [] filtered_tables = filtered_tables"
| "filter_tables_loop filter_by_table_name ((table_name, storage) # rest) filtered_tables =
     (if filter_by_table_name table_name
      then filter_tables_loop filter_by_table_name rest
             (fst (Tables_emplace table_name storage filtered_tables))
      else filter_tables_loop filter_by_table_name rest filtered_tables)"

text \<open>The loop of lines 99-102: the views go into \<^verbatim>\<open>tables_copy\<close>.\<close>

fun filtered_dictionary_tables_loop ::
  "'s Context \<Rightarrow> (String \<Rightarrow> bool) \<Rightarrow> Dictionaries \<Rightarrow> Tables \<Rightarrow> state \<Rightarrow> Tables \<times> state" where
  "filtered_dictionary_tables_loop context filter_by_table_name [] tables_copy s = (tables_copy, s)"
| "filtered_dictionary_tables_loop context filter_by_table_name (dictionary_name # rest) tables_copy s =
     (if filter_by_table_name dictionary_name
      then (case getDictionaryStorage context dictionary_name (getDatabaseName s) s of
              (Some dictionary_storage, s') \<Rightarrow>
                filtered_dictionary_tables_loop context filter_by_table_name rest
                  (fst (Tables_emplace dictionary_name dictionary_storage tables_copy)) s'
            | (None, s') \<Rightarrow>
                filtered_dictionary_tables_loop context filter_by_table_name rest tables_copy s')
      else filtered_dictionary_tables_loop context filter_by_table_name rest tables_copy s)"

text \<open>
  Lines 83-105. The result is the address of the new iterator. With a filter, line 104
  returns \<^verbatim>\<open>filtered_tables\<close>; \<^verbatim>\<open>tables_copy\<close>, which received the views, is dropped.
\<close>

definition getTablesWithDictionaryTablesIterator ::
  "'s Context \<Rightarrow> FilterByNameFunction \<Rightarrow> state \<Rightarrow> nat \<times> state" where
  "getTablesWithDictionaryTablesIterator context filter_by_table_name s0 =
     (let s1 = lock s0;
          tables_copy = tables s1
      in case filter_by_table_name of
           None \<Rightarrow>
             (let (tables_copy', s2) = dictionary_tables_loop context (dictionaries s1) tables_copy s1;
                  (it, s3) = make_unique (DatabaseTablesSnapshotIterator tables_copy') s2
              in (it, unlock s3))
         | Some f \<Rightarrow>
             (let filtered_tables = filter_tables_loop f (tables s1) [];
                  (tables_copy', s2) =
                     filtered_dictionary_tables_loop context f (dictionaries s1) tables_copy s1;
                  (it, s3) = make_unique (DatabaseTablesSnapshotIterator filtered_tables) s2
              in (it, unlock s3)))"

text \<open>Lines 107-119.\<close>

definition getTablesIterator :: "FilterByNameFunction \<Rightarrow> state \<Rightarrow> nat \<times> state" where
  "getTablesIterator filter_by_table_name s0 =
     (let s1 = lock s0
      in case filter_by_table_name of
           None \<Rightarrow>
             (let (it, s2) = make_unique (DatabaseTablesSnapshotIterator (tables s1)) s1
              in (it, unlock s2))
         | Some f \<Rightarrow>
             (let filtered_tables = filter_tables_loop f (tables s1) [];
                  (it, s2) = make_unique (DatabaseTablesSnapshotIterator filtered_tables) s1
              in (it, unlock s2)))"

text \<open>The loop of lines 129-131.\<close>

fun filter_dictionaries_loop :: "(String \<Rightarrow> bool) \<Rightarrow> Dictionaries \<Rightarrow> Dictionaries \<Rightarrow> Dictionaries" where
  "filter_dictionaries_loop filter_by_dictionary_name [] filtered_dictionaries = filtered_dictionaries"
| "filter_dictionaries_loop filter_by_dictionary_name (dictionary_name # rest) filtered_dictionaries =
     (if filter_by_dictionary_name dictionary_name
      then filter_dictionaries_loop filter_by_dictionary_name rest
             (fst (Dictionaries_emplace dictionary_name filtered_dictionaries))
      else filter_dictionaries_loop filter_by_dictionary_name rest filtered_dictionaries)"

text \<open>Lines 122-133.\<close>

definition getDictionariesIterator :: "FilterByNameFunction \<Rightarrow> state \<Rightarrow> nat \<times> state" where
  "getDictionariesIterator filter_by_dictionary_name s0 =
     (let s1 = lock s0
      in case filter_by_dictionary_name of
           None \<Rightarrow>
             (let (it, s2) = make_unique (DatabaseDictionariesSnapshotIterator (dictionaries s1)) s1
              in (it, unlock s2))
         | Some f \<Rightarrow>
             (let filtered_dictionaries = filter_dictionaries_loop f (dictionaries s1) [];
                  (it, s2) = make_unique (DatabaseDictionariesSnapshotIterator filtered_dictionaries) s1
              in (it, unlock s2)))"

text \<open>Lines 135-139.\<close>

definition empty :: "state \<Rightarrow> bool \<times> state" where
  "empty s0 =
     (let s1 = lock s0
      in (tables s1 = [] \<and> dictionaries s1 = [], unlock s1))"

text \<open>Lines 141-157. Both exceptions carry the code \<^verbatim>\<open>UNKNOWN_TABLE\<close>.\<close>

definition detachTable :: "String \<Rightarrow> state \<Rightarrow> (exception + StoragePtr) \<times> state" where
  "detachTable table_name s0 =
     (let s1 = lock s0
      in if table_name \<in> set (dictionaries s1)
         then (Inl (Exception (''Cannot detach dictionary '' @ name s1 @ ''.'' @ table_name
                                 @ '' as table, use DETACH DICTIONARY query.'') UNKNOWN_TABLE),
               unlock s1)
         else case map_of (tables s1) table_name of
                None \<Rightarrow>
                  (Inl (Exception (''Table '' @ name s1 @ ''.'' @ table_name @ '' doesn't exist.'')
                          UNKNOWN_TABLE),
                   unlock s1)
              | Some res \<Rightarrow>
                  (Inr res, unlock (s1\<lparr>tables := Tables_erase table_name (tables s1)\<rparr>)))"

text \<open>Lines 159-171. The guard's block ends at line 167, before the loader is called.\<close>

definition detachDictionary :: "String \<Rightarrow> 's Context \<Rightarrow> state \<Rightarrow> (exception + unit) \<times> state" where
  "detachDictionary dictionary_name context s0 =
     (let s1 = lock s0
      in if dictionary_name \<notin> set (dictionaries s1)
         then (Inl (Exception (''Dictionary '' @ name s1 @ ''.'' @ dictionary_name
                                 @ '' doesn't exist.'') UNKNOWN_TABLE),
               unlock s1)
         else
           (let s2 = unlock (s1\<lparr>dictionaries := Dictionaries_erase dictionary_name (dictionaries s1)\<rparr>);
                qualified = getDatabaseName s2 @ ''.'' @ dictionary_name;
                s3 = record_call (Reload qualified True) s2
            in case reload context qualified True of
                 Some e \<Rightarrow> (Inl e, s3)
               | None \<Rightarrow> (Inr (), s3)))"

text \<open>Lines 173-178.\<close>

definition attachTable :: "String \<Rightarrow> StoragePtr \<Rightarrow> state \<Rightarrow> (exception + unit) \<times> state" where
  "attachTable table_name table s0 =
     (let s1 = lock s0
      in case Tables_emplace table_name table (tables s1) of
           (tables', False) \<Rightarrow>
             (Inl (Exception (''Table '' @ name s1 @ ''.'' @ table_name @ '' already exists.'')
                     TABLE_ALREADY_EXISTS),
              unlock (s1\<lparr>tables := tables'\<rparr>))
         | (tables', True) \<Rightarrow> (Inr (), unlock (s1\<lparr>tables := tables'\<rparr>)))"

text \<open>Lines 181-194. The guard's block ends at line 187, before the loader is called.\<close>

definition attachDictionary ::
  "String \<Rightarrow> 's Context \<Rightarrow> bool \<Rightarrow> state \<Rightarrow> (exception + unit) \<times> state" where
  "attachDictionary dictionary_name context load s0 =
     (let s1 = lock s0
      in case Dictionaries_emplace dictionary_name (dictionaries s1) of
           (dictionaries', False) \<Rightarrow>
             (Inl (Exception (''Dictionary '' @ name s1 @ ''.'' @ dictionary_name
                                @ '' already exists.'') DICTIONARY_ALREADY_EXISTS),
              unlock (s1\<lparr>dictionaries := dictionaries'\<rparr>))
         | (dictionaries', True) \<Rightarrow>
             (let s2 = unlock (s1\<lparr>dictionaries := dictionaries'\<rparr>)
              in if load
                 then (let lazy_load = getBool (dictionaries_lazy_load context) True;
                           qualified = getDatabaseName s2 @ ''.'' @ dictionary_name;
                           s3 = record_call (Reload qualified (\<not> lazy_load)) s2
                       in case reload context qualified (\<not> lazy_load) of
                            Some e \<Rightarrow> (Inl e, s3)
                          | None \<Rightarrow> (Inr (), s3))
                 else (Inr (), s2)))"

text \<open>
  The loop of lines 207-210. \<open>storage_shutdown\<close> is \<^verbatim>\<open>IStorage::shutdown\<close>, a parameter:
  the exception the table's shutdown throws, if it throws. An exception leaves the loop
  and \<^verbatim>\<open>shutdown\<close> (the destructor, lines 217-227, catches it).
\<close>

fun shutdown_loop ::
  "(StoragePtr \<Rightarrow> exception option) \<Rightarrow> Tables \<Rightarrow> state \<Rightarrow> exception option \<times> state" where
  "shutdown_loop storage_shutdown [] s = (None, s)"
| "shutdown_loop storage_shutdown (kv # rest) s =
     (let s' = record_call (StorageShutdown (snd kv)) s
      in case storage_shutdown (snd kv) of
           Some e \<Rightarrow> (Some e, s')
         | None \<Rightarrow> shutdown_loop storage_shutdown rest s')"

text \<open>Lines 196-215.\<close>

definition shutdown :: "(StoragePtr \<Rightarrow> exception option) \<Rightarrow> state \<Rightarrow> (exception + unit) \<times> state" where
  "shutdown storage_shutdown s0 =
     (let s1 = lock s0;
          tables_snapshot = tables s1;
          s2 = unlock s1
      in case shutdown_loop storage_shutdown tables_snapshot s2 of
           (Some e, s3) \<Rightarrow> (Inl e, s3)
         | (None, s3) \<Rightarrow>
             (let s4 = lock s3;
                  s5 = s4\<lparr>tables := []\<rparr>;
                  s6 = s5\<lparr>dictionaries := []\<rparr>
              in (Inr (), unlock s6)))"

section \<open>The interface as a whole\<close>

text \<open>
  The operations the class offers its callers, as one datatype, so that a statement can
  range over all of them; \<open>run\<close> performs one and keeps the state, \<open>run_all\<close> a
  sequence of them.
\<close>

datatype operation =
    IsTableExist String
  | IsDictionaryExist String
  | TryGetTable String
  | Empty
  | AttachTable String StoragePtr
  | DetachTable String
  | AttachDictionary String bool
  | DetachDictionary String
  | GetTablesIterator FilterByNameFunction
  | GetDictionariesIterator FilterByNameFunction
  | GetTablesWithDictionaryTablesIterator FilterByNameFunction
  | Shutdown

fun run :: "'s Context \<Rightarrow> (StoragePtr \<Rightarrow> exception option) \<Rightarrow> operation \<Rightarrow> state \<Rightarrow> state" where
  "run context storage_shutdown (IsTableExist n) s = snd (isTableExist n s)"
| "run context storage_shutdown (IsDictionaryExist n) s = snd (isDictionaryExist n s)"
| "run context storage_shutdown (TryGetTable n) s = snd (tryGetTable context n s)"
| "run context storage_shutdown Empty s = snd (empty s)"
| "run context storage_shutdown (AttachTable n h) s = snd (attachTable n h s)"
| "run context storage_shutdown (DetachTable n) s = snd (detachTable n s)"
| "run context storage_shutdown (AttachDictionary n load) s = snd (attachDictionary n context load s)"
| "run context storage_shutdown (DetachDictionary n) s = snd (detachDictionary n context s)"
| "run context storage_shutdown (GetTablesIterator f) s = snd (getTablesIterator f s)"
| "run context storage_shutdown (GetDictionariesIterator f) s = snd (getDictionariesIterator f s)"
| "run context storage_shutdown (GetTablesWithDictionaryTablesIterator f) s =
     snd (getTablesWithDictionaryTablesIterator context f s)"
| "run context storage_shutdown Shutdown s = snd (shutdown storage_shutdown s)"

definition run_all ::
  "'s Context \<Rightarrow> (StoragePtr \<Rightarrow> exception option) \<Rightarrow> operation list \<Rightarrow> state \<Rightarrow> state" where
  "run_all context storage_shutdown ops s = fold (run context storage_shutdown) ops s"

text \<open>
  The containers as \<^verbatim>\<open>std::map\<close> and \<^verbatim>\<open>std::set\<close> keep them: in key order, no key twice.
\<close>

definition well_formed :: "state \<Rightarrow> bool" where
  "well_formed s =
     (sorted (map fst (tables s)) \<and> distinct (map fst (tables s))
      \<and> sorted (dictionaries s) \<and> distinct (dictionaries s))"

text \<open>The calls into collaborators that were logged between two states.\<close>

definition new_calls :: "state \<Rightarrow> state \<Rightarrow> (call \<times> bool) list" where
  "new_calls s s' = drop (length (calls s)) (calls s')"

text \<open>
  The locking the file follows: the loader's lookup is called with the mutex held, the
  loader's reload and a table's shutdown with the mutex released.
\<close>

definition lock_discipline :: "call \<times> bool \<Rightarrow> bool" where
  "lock_discipline x =
     (case fst x of
        TryGetDictionary _ \<Rightarrow> snd x
      | Reload _ _ \<Rightarrow> \<not> snd x
      | StorageShutdown _ \<Rightarrow> \<not> snd x)"

section \<open>Example inputs\<close>

text \<open>
  A database \<open>db\<close> with one table \<open>t1\<close> and one dictionary \<open>d1\<close>; a context whose
  loader has \<open>db.d1\<close> loaded and whose reload returns; a context whose reload throws;
  a filter that every name passes; a table shutdown that returns and one that throws.
\<close>

definition example_state :: state where
  "example_state =
     \<lparr>name = ''db'', tables = [(''t1'', IStorage 1)], dictionaries = [''d1''],
      mutex = False, heap = [], calls = []\<rparr>"

definition example_context :: "NamesAndTypes Context" where
  "example_context =
     \<lparr>tryGetDictionary = (\<lambda>n. if n = ''db.d1'' then Some [(''id'', ''UInt64'')] else None),
      getNamesAndTypes = (\<lambda>structure. structure),
      reload = (\<lambda>n wait. None),
      dictionaries_lazy_load = None\<rparr>"

definition failing_context :: "NamesAndTypes Context" where
  "failing_context =
     \<lparr>tryGetDictionary = (\<lambda>n. None),
      getNamesAndTypes = (\<lambda>structure. structure),
      reload = (\<lambda>n wait. Some (ExternalException ''reload failed'')),
      dictionaries_lazy_load = None\<rparr>"

definition every_name :: "String \<Rightarrow> bool" where
  "every_name n = True"

definition returning_shutdown :: "StoragePtr \<Rightarrow> exception option" where
  "returning_shutdown h = None"

definition throwing_shutdown :: "StoragePtr \<Rightarrow> exception option" where
  "throwing_shutdown h = Some (ExternalException ''shutdown failed'')"

section \<open>Containers and loops\<close>

lemmas state_ops = lock_def unlock_def record_call_def make_unique_def getDatabaseName_def

lemma key_iff: "(n \<in> fst ` set m) = (map_of m n \<noteq> None)"
  by (simp add: map_of_eq_None_iff)

lemma map_of_insort_key_fst:
  "map_of (insort_key fst (k, v) m) = (map_of m)(k \<mapsto> v)"
  by (induction m) (auto simp: fun_eq_iff)

lemma map_of_Tables_emplace:
  "map_of (fst (Tables_emplace k v m)) =
     (case map_of m k of Some _ \<Rightarrow> map_of m | None \<Rightarrow> (map_of m)(k \<mapsto> v))"
  by (simp add: Tables_emplace_def map_of_insort_key_fst split: option.splits)

lemma map_of_Tables_erase:
  "map_of (Tables_erase k m) = (map_of m)(k := None)"
  by (induction m) (auto simp: Tables_erase_def fun_eq_iff)

lemma set_Dictionaries_emplace:
  "set (fst (Dictionaries_emplace k d)) = insert k (set d)"
  by (auto simp: Dictionaries_emplace_def set_insort_key)

lemma set_Dictionaries_erase:
  "set (Dictionaries_erase k d) = set d - {k}"
  by (auto simp: Dictionaries_erase_def)

lemma getDictionaryStorage_fst:
  "fst (getDictionaryStorage ctx table_name db_name s) =
     map_option (\<lambda>d. StorageDictionary db_name table_name (getNamesAndTypes ctx d) True
                        (db_name @ ''.'' @ table_name))
       (tryGetDictionary ctx (db_name @ ''.'' @ table_name))"
  by (simp add: getDictionaryStorage_def Let_def split: option.splits)

lemma getDictionaryStorage_snd:
  "snd (getDictionaryStorage ctx table_name db_name s) =
     s\<lparr>calls := calls s @ [(TryGetDictionary (db_name @ ''.'' @ table_name), mutex s)]\<rparr>"
  by (simp add: getDictionaryStorage_def Let_def state_ops split: option.splits)

lemma filter_tables_loop_map_of:
  "map_of (filter_tables_loop f ts acc) n =
     (case map_of acc n of
        Some h \<Rightarrow> Some h
      | None \<Rightarrow> if f n then map_of ts n else None)"
proof (induction ts arbitrary: acc)
  case Nil
  show ?case by (simp split: option.splits)
next
  case (Cons kv ts)
  obtain k v where kv: "kv = (k, v)" by (cases kv)
  show ?case
    unfolding kv
    by (simp add: Cons.IH map_of_Tables_emplace split: option.splits)
qed

lemma dictionary_tables_loop_snd:
  "snd (dictionary_tables_loop ctx ds tc s) =
     s\<lparr>calls := calls s @ map (\<lambda>d. (TryGetDictionary (name s @ ''.'' @ d), mutex s)) ds\<rparr>"
proof (induction ds arbitrary: tc s)
  case Nil
  show ?case by simp
next
  case (Cons d ds)
  obtain r s' where g: "getDictionaryStorage ctx d (getDatabaseName s) s = (r, s')"
    by (cases "getDictionaryStorage ctx d (getDatabaseName s) s")
  from getDictionaryStorage_snd [of ctx d "getDatabaseName s" s] g
  have s': "s' = s\<lparr>calls := calls s @ [(TryGetDictionary (name s @ ''.'' @ d), mutex s)]\<rparr>"
    by (simp add: getDatabaseName_def)
  show ?case
    by (cases r) (simp_all add: g Cons.IH s')
qed

lemma filtered_dictionary_tables_loop_snd:
  "snd (filtered_dictionary_tables_loop ctx f ds tc s) =
     s\<lparr>calls := calls s @ map (\<lambda>d. (TryGetDictionary (name s @ ''.'' @ d), mutex s)) (filter f ds)\<rparr>"
proof (induction ds arbitrary: tc s)
  case Nil
  show ?case by simp
next
  case (Cons d ds)
  obtain r s' where g: "getDictionaryStorage ctx d (getDatabaseName s) s = (r, s')"
    by (cases "getDictionaryStorage ctx d (getDatabaseName s) s")
  from getDictionaryStorage_snd [of ctx d "getDatabaseName s" s] g
  have s': "s' = s\<lparr>calls := calls s @ [(TryGetDictionary (name s @ ''.'' @ d), mutex s)]\<rparr>"
    by (simp add: getDatabaseName_def)
  show ?case
    by (cases r) (simp_all add: g Cons.IH s')
qed

lemma dictionary_tables_loop_map_of:
  "map_of (fst (dictionary_tables_loop ctx ds tc s)) n =
     (case map_of tc n of
        Some h \<Rightarrow> Some h
      | None \<Rightarrow> if n \<in> set ds
                then fst (getDictionaryStorage ctx n (name s) s)
                else None)"
proof (induction ds arbitrary: tc s)
  case Nil
  show ?case by (simp split: option.splits)
next
  case (Cons d ds)
  obtain r s' where g: "getDictionaryStorage ctx d (getDatabaseName s) s = (r, s')"
    by (cases "getDictionaryStorage ctx d (getDatabaseName s) s")
  from getDictionaryStorage_snd [of ctx d "getDatabaseName s" s] g
  have s': "name s' = name s" by simp
  from getDictionaryStorage_fst [of ctx d "getDatabaseName s" s] g
  have r: "r = fst (getDictionaryStorage ctx d (name s) s)"
    by (simp add: getDatabaseName_def)
  have indep: "\<And>m t t'. fst (getDictionaryStorage ctx m (name s) t) = fst (getDictionaryStorage ctx m (name s) t')"
    by (simp add: getDictionaryStorage_fst)
  show ?case
    apply (cases r)
    using r indep[of n s' s]
     apply (simp_all add: g Cons.IH s' map_of_Tables_emplace split: option.splits)
     apply auto
    done
qed

section \<open>The effect of each operation on the state\<close>

lemma isTableExist_snd: "snd (isTableExist n s) = s\<lparr>mutex := False\<rparr>"
  by (simp add: isTableExist_def Let_def state_ops)

lemma isDictionaryExist_snd: "snd (isDictionaryExist n s) = s\<lparr>mutex := False\<rparr>"
  by (simp add: isDictionaryExist_def Let_def state_ops)

lemma empty_snd: "snd (empty s) = s\<lparr>mutex := False\<rparr>"
  by (simp add: empty_def Let_def state_ops)

lemma tryGetTable_snd:
  "snd (tryGetTable ctx n s) =
     s\<lparr>mutex := False,
       calls := calls s @
         (if map_of (tables s) n = None \<and> n \<in> set (dictionaries s)
          then [(TryGetDictionary (name s @ ''.'' @ n), True)] else [])\<rparr>"
proof -
  obtain r s' where g: "getDictionaryStorage ctx n (name s) (s\<lparr>mutex := True\<rparr>) = (r, s')"
    by (cases "getDictionaryStorage ctx n (name s) (s\<lparr>mutex := True\<rparr>)")
  from getDictionaryStorage_snd [of ctx n "name s" "s\<lparr>mutex := True\<rparr>"] g
  have s': "s' = s\<lparr>mutex := True, calls := calls s @ [(TryGetDictionary (name s @ ''.'' @ n), True)]\<rparr>"
    by simp
  show ?thesis
    by (simp add: tryGetTable_def Let_def state_ops g s' split: option.splits)
qed

lemma tryGetTable_fst:
  "fst (tryGetTable ctx n s) =
     (case map_of (tables s) n of
        Some h \<Rightarrow> Some h
      | None \<Rightarrow>
          if n \<in> set (dictionaries s)
          then map_option (\<lambda>d. StorageDictionary (name s) n (getNamesAndTypes ctx d) True
                                  (name s @ ''.'' @ n))
                 (tryGetDictionary ctx (name s @ ''.'' @ n))
          else None)"
proof -
  obtain r s' where g: "getDictionaryStorage ctx n (name s) (s\<lparr>mutex := True\<rparr>) = (r, s')"
    by (cases "getDictionaryStorage ctx n (name s) (s\<lparr>mutex := True\<rparr>)")
  from getDictionaryStorage_fst [of ctx n "name s" "s\<lparr>mutex := True\<rparr>"] g
  have r: "r = map_option (\<lambda>d. StorageDictionary (name s) n (getNamesAndTypes ctx d) True
                                  (name s @ ''.'' @ n))
                 (tryGetDictionary ctx (name s @ ''.'' @ n))"
    by simp
  show ?thesis
    by (simp add: tryGetTable_def Let_def state_ops g r split: option.splits)
qed

lemma attachTable_snd:
  "snd (attachTable n h s) =
     s\<lparr>tables := fst (Tables_emplace n h (tables s)), mutex := False\<rparr>"
  by (simp add: attachTable_def Let_def state_ops split: prod.splits bool.splits)

lemma attachTable_fst:
  "fst (attachTable n h s) =
     (if map_of (tables s) n = None then Inr ()
      else Inl (Exception (''Table '' @ name s @ ''.'' @ n @ '' already exists.'')
                  TABLE_ALREADY_EXISTS))"
  by (auto simp: attachTable_def Let_def state_ops Tables_emplace_def
           split: prod.splits bool.splits option.splits)

lemma detachTable_snd:
  "snd (detachTable n s) =
     (if n \<notin> set (dictionaries s) \<and> map_of (tables s) n \<noteq> None
      then s\<lparr>tables := Tables_erase n (tables s), mutex := False\<rparr>
      else s\<lparr>mutex := False\<rparr>)"
  by (auto simp: detachTable_def Let_def state_ops split: option.splits)

lemma attachDictionary_snd:
  "snd (attachDictionary n ctx load s) =
     s\<lparr>dictionaries := fst (Dictionaries_emplace n (dictionaries s)),
       mutex := False,
       calls := calls s @
         (if n \<notin> set (dictionaries s) \<and> load
          then [(Reload (name s @ ''.'' @ n) (\<not> getBool (dictionaries_lazy_load ctx) True), False)]
          else [])\<rparr>"
  by (auto simp: attachDictionary_def Let_def state_ops Dictionaries_emplace_def
           split: prod.splits bool.splits option.splits)

lemma detachDictionary_snd:
  "snd (detachDictionary n ctx s) =
     (if n \<in> set (dictionaries s)
      then s\<lparr>dictionaries := Dictionaries_erase n (dictionaries s),
             mutex := False,
             calls := calls s @ [(Reload (name s @ ''.'' @ n) True, False)]\<rparr>
      else s\<lparr>mutex := False\<rparr>)"
  by (auto simp: detachDictionary_def Let_def state_ops split: option.splits)

lemma getTablesIterator_eq:
  "getTablesIterator f s =
     (length (heap s),
      s\<lparr>mutex := False,
        heap := heap s @ [DatabaseTablesSnapshotIterator
                  (case f of None \<Rightarrow> tables s | Some p \<Rightarrow> filter_tables_loop p (tables s) [])]\<rparr>)"
  by (simp add: getTablesIterator_def Let_def state_ops split: option.splits)

lemma getDictionariesIterator_eq:
  "getDictionariesIterator f s =
     (length (heap s),
      s\<lparr>mutex := False,
        heap := heap s @ [DatabaseDictionariesSnapshotIterator
                  (case f of None \<Rightarrow> dictionaries s
                   | Some p \<Rightarrow> filter_dictionaries_loop p (dictionaries s) [])]\<rparr>)"
  by (simp add: getDictionariesIterator_def Let_def state_ops split: option.splits)

lemma getTablesWithDictionaryTablesIterator_eq:
  "getTablesWithDictionaryTablesIterator ctx f s =
     (length (heap s),
      s\<lparr>mutex := False,
        heap := heap s @ [DatabaseTablesSnapshotIterator
                  (case f of
                     None \<Rightarrow> fst (dictionary_tables_loop ctx (dictionaries s) (tables s)
                                     (s\<lparr>mutex := True\<rparr>))
                   | Some p \<Rightarrow> filter_tables_loop p (tables s) [])],
        calls := calls s @
          map (\<lambda>d. (TryGetDictionary (name s @ ''.'' @ d), True))
            (case f of None \<Rightarrow> dictionaries s | Some p \<Rightarrow> filter p (dictionaries s))\<rparr>)"
proof (cases f)
  case None
  obtain tc s2 where l: "dictionary_tables_loop ctx (dictionaries s) (tables s) (s\<lparr>mutex := True\<rparr>) = (tc, s2)"
    by (cases "dictionary_tables_loop ctx (dictionaries s) (tables s) (s\<lparr>mutex := True\<rparr>)")
  from dictionary_tables_loop_snd [of ctx "dictionaries s" "tables s" "s\<lparr>mutex := True\<rparr>"] l
  have s2: "s2 = s\<lparr>mutex := True, calls := calls s @
              map (\<lambda>d. (TryGetDictionary (name s @ ''.'' @ d), True)) (dictionaries s)\<rparr>"
    by simp
  show ?thesis
    by (simp add: None getTablesWithDictionaryTablesIterator_def Let_def state_ops l s2)
next
  case (Some p)
  obtain tc s2 where l: "filtered_dictionary_tables_loop ctx p (dictionaries s) (tables s) (s\<lparr>mutex := True\<rparr>) = (tc, s2)"
    by (cases "filtered_dictionary_tables_loop ctx p (dictionaries s) (tables s) (s\<lparr>mutex := True\<rparr>)")
  from filtered_dictionary_tables_loop_snd [of ctx p "dictionaries s" "tables s" "s\<lparr>mutex := True\<rparr>"] l
  have s2: "s2 = s\<lparr>mutex := True, calls := calls s @
              map (\<lambda>d. (TryGetDictionary (name s @ ''.'' @ d), True)) (filter p (dictionaries s))\<rparr>"
    by simp
  show ?thesis
    by (simp add: Some getTablesWithDictionaryTablesIterator_def Let_def state_ops l s2)
qed

lemma shutdown_loop_returns:
  "\<forall>kv \<in> set ts. sh (snd kv) = None \<Longrightarrow>
   shutdown_loop sh ts s =
     (None, s\<lparr>calls := calls s @ map (\<lambda>kv. (StorageShutdown (snd kv), mutex s)) ts\<rparr>)"
  by (induction ts arbitrary: s) (simp_all add: Let_def state_ops)

lemma shutdown_loop_snd:
  "\<exists>k. snd (shutdown_loop sh ts s) =
     s\<lparr>calls := calls s @ map (\<lambda>kv. (StorageShutdown (snd kv), mutex s)) (take k ts)\<rparr>"
proof (induction ts arbitrary: s)
  case Nil
  show ?case by simp
next
  case (Cons kv ts)
  show ?case
  proof (cases "sh (snd kv)")
    case (Some e)
    have "snd (shutdown_loop sh (kv # ts) s) =
            s\<lparr>calls := calls s @ map (\<lambda>kv. (StorageShutdown (snd kv), mutex s)) (take 1 (kv # ts))\<rparr>"
      by (simp add: Some Let_def state_ops)
    then show ?thesis by blast
  next
    case None
    from Cons.IH [of "record_call (StorageShutdown (snd kv)) s"]
    obtain k where k: "snd (shutdown_loop sh ts (record_call (StorageShutdown (snd kv)) s)) =
        (record_call (StorageShutdown (snd kv)) s)\<lparr>calls := calls (record_call (StorageShutdown (snd kv)) s) @
           map (\<lambda>kv'. (StorageShutdown (snd kv'), mutex (record_call (StorageShutdown (snd kv)) s))) (take k ts)\<rparr>"
      by blast
    have "snd (shutdown_loop sh (kv # ts) s) =
            s\<lparr>calls := calls s @ map (\<lambda>kv. (StorageShutdown (snd kv), mutex s)) (take (Suc k) (kv # ts))\<rparr>"
      using k by (simp add: None Let_def state_ops)
    then show ?thesis by blast
  qed
qed

lemma shutdown_snd:
  "\<exists>k ts ds. snd (shutdown sh s) =
     s\<lparr>tables := ts, dictionaries := ds, mutex := False,
       calls := calls s @ map (\<lambda>kv. (StorageShutdown (snd kv), False)) (take k (tables s))\<rparr>"
proof -
  let ?s2 = "s\<lparr>mutex := False\<rparr>"
  obtain r s3 where l: "shutdown_loop sh (tables s) ?s2 = (r, s3)"
    by (cases "shutdown_loop sh (tables s) ?s2")
  from shutdown_loop_snd [of sh "tables s" ?s2] l
  obtain k where s3: "s3 = s\<lparr>mutex := False, calls := calls s @
       map (\<lambda>kv. (StorageShutdown (snd kv), False)) (take k (tables s))\<rparr>"
    by auto
  show ?thesis
  proof (cases r)
    case None
    have "snd (shutdown sh s) = s\<lparr>tables := [], dictionaries := [], mutex := False,
       calls := calls s @ map (\<lambda>kv. (StorageShutdown (snd kv), False)) (take k (tables s))\<rparr>"
      by (simp add: shutdown_def Let_def state_ops l None s3)
    then show ?thesis by blast
  next
    case (Some e)
    have "snd (shutdown sh s) = s\<lparr>tables := tables s, dictionaries := dictionaries s, mutex := False,
       calls := calls s @ map (\<lambda>kv. (StorageShutdown (snd kv), False)) (take k (tables s))\<rparr>"
      by (simp add: shutdown_def Let_def state_ops l Some s3)
    then show ?thesis by blast
  qed
qed

section \<open>Existence and lookup\<close>

text \<open>
  C8. For every name \<open>n\<close>, \<^verbatim>\<open>isTableExist(n)\<close> is true exactly when \<open>n\<close> is a key of the
  table map or a member of the dictionary name set; so it is true for an attached
  dictionary that has no table entry.
\<close>

theorem isTableExist_iff:
  "fst (isTableExist n s) = (n \<in> fst ` set (tables s) \<or> n \<in> set (dictionaries s))"
  by (simp add: isTableExist_def Let_def lock_def map_of_eq_None_iff)

theorem isTableExist_iff_witness:
  "fst (isTableExist ''d1'' example_state)
   \<and> ''d1'' \<notin> fst ` set (tables example_state)
   \<and> ''d1'' \<in> set (dictionaries example_state)
   \<and> fst (isTableExist ''t1'' example_state)
   \<and> \<not> fst (isTableExist ''x'' example_state)"
  using isTableExist_iff [of "''d1''" example_state]
        isTableExist_iff [of "''t1''" example_state]
        isTableExist_iff [of "''x''" example_state]
  by (simp add: example_state_def)

text \<open>
  C5. For every name \<open>n\<close>, \<^verbatim>\<open>tryGetTable(n)\<close> returns the stored handle when \<open>n\<close> is a key
  of the table map, whether or not \<open>n\<close> is also a dictionary name; otherwise, when \<open>n\<close> is
  a dictionary name, it returns the view built from what the loader returns for the
  qualified name, or nothing when the loader returns no dictionary; otherwise nothing.
  The view is not stored: the table map, the dictionary names and the heap are as before.
\<close>

theorem tryGetTable_cases:
  "(\<forall>h. map_of (tables s) n = Some h \<longrightarrow> fst (tryGetTable ctx n s) = Some h)
   \<and> (map_of (tables s) n = None \<and> n \<in> set (dictionaries s) \<longrightarrow>
        fst (tryGetTable ctx n s) =
          (case tryGetDictionary ctx (name s @ ''.'' @ n) of
             Some d \<Rightarrow> Some (StorageDictionary (name s) n (getNamesAndTypes ctx d) True
                               (name s @ ''.'' @ n))
           | None \<Rightarrow> None))
   \<and> (map_of (tables s) n = None \<and> n \<notin> set (dictionaries s) \<longrightarrow>
        fst (tryGetTable ctx n s) = None)
   \<and> tables (snd (tryGetTable ctx n s)) = tables s
   \<and> dictionaries (snd (tryGetTable ctx n s)) = dictionaries s
   \<and> heap (snd (tryGetTable ctx n s)) = heap s"
  by (simp add: tryGetTable_fst tryGetTable_snd split: option.splits)

theorem tryGetTable_cases_witness:
  "fst (tryGetTable example_context ''t1'' example_state) = Some (IStorage 1)
   \<and> fst (tryGetTable example_context ''d1'' (example_state\<lparr>tables := [(''d1'', IStorage 7)]\<rparr>))
       = Some (IStorage 7)
   \<and> fst (tryGetTable example_context ''d1'' example_state)
       = Some (StorageDictionary ''db'' ''d1'' [(''id'', ''UInt64'')] True ''db.d1'')
   \<and> fst (tryGetTable failing_context ''d1'' example_state) = None
   \<and> fst (tryGetTable example_context ''x'' example_state) = None
   \<and> tables (snd (tryGetTable example_context ''d1'' example_state)) = [(''t1'', IStorage 1)]"
  using tryGetTable_cases [of example_state "''t1''" example_context]
        tryGetTable_cases [of "example_state\<lparr>tables := [(''d1'', IStorage 7)]\<rparr>" "''d1''" example_context]
        tryGetTable_cases [of example_state "''d1''" example_context]
        tryGetTable_cases [of example_state "''d1''" failing_context]
        tryGetTable_cases [of example_state "''x''" example_context]
  by (simp add: example_state_def example_context_def failing_context_def)

section \<open>Detaching a table\<close>

text \<open>
  C3. For every name \<open>n\<close>, \<^verbatim>\<open>detachTable(n)\<close> fails with the exception the spec calls
  Misuse (``Cannot detach dictionary ... as table'') when \<open>n\<close> is a dictionary name, and
  \<open>n\<close> stays a dictionary name; fails with the exception the spec calls NotFound
  (``Table ... doesn't exist'') when \<open>n\<close> is no dictionary name and no key of the table
  map; and otherwise removes \<open>n\<close> from the table map and returns the handle that was
  stored under \<open>n\<close>. Both exceptions carry the code \<^verbatim>\<open>UNKNOWN_TABLE\<close> and differ in their
  message. A failure leaves the table map and the dictionary names as they were.
\<close>

theorem detachTable_cases:
  "(n \<in> set (dictionaries s) \<longrightarrow>
      fst (detachTable n s) =
        Inl (Exception (''Cannot detach dictionary '' @ name s @ ''.'' @ n
                          @ '' as table, use DETACH DICTIONARY query.'') UNKNOWN_TABLE)
      \<and> tables (snd (detachTable n s)) = tables s
      \<and> dictionaries (snd (detachTable n s)) = dictionaries s)
   \<and> (n \<notin> set (dictionaries s) \<and> n \<notin> fst ` set (tables s) \<longrightarrow>
      fst (detachTable n s) =
        Inl (Exception (''Table '' @ name s @ ''.'' @ n @ '' doesn't exist.'') UNKNOWN_TABLE)
      \<and> tables (snd (detachTable n s)) = tables s
      \<and> dictionaries (snd (detachTable n s)) = dictionaries s)
   \<and> (\<forall>h. n \<notin> set (dictionaries s) \<and> map_of (tables s) n = Some h \<longrightarrow>
      fst (detachTable n s) = Inr h
      \<and> map_of (tables (snd (detachTable n s))) = (map_of (tables s))(n := None)
      \<and> n \<notin> fst ` set (tables (snd (detachTable n s)))
      \<and> dictionaries (snd (detachTable n s)) = dictionaries s)"
proof -
  have dict: "n \<in> set (dictionaries s) \<Longrightarrow>
      fst (detachTable n s) =
        Inl (Exception (''Cannot detach dictionary '' @ name s @ ''.'' @ n
                          @ '' as table, use DETACH DICTIONARY query.'') UNKNOWN_TABLE)"
    by (simp add: detachTable_def Let_def lock_def)
  have absent: "n \<notin> set (dictionaries s) \<Longrightarrow> n \<notin> fst ` set (tables s) \<Longrightarrow>
      fst (detachTable n s) =
        Inl (Exception (''Table '' @ name s @ ''.'' @ n @ '' doesn't exist.'') UNKNOWN_TABLE)"
    by (simp add: detachTable_def Let_def lock_def map_of_eq_None_iff [symmetric])
  have present: "\<And>h. n \<notin> set (dictionaries s) \<Longrightarrow> map_of (tables s) n = Some h \<Longrightarrow>
      fst (detachTable n s) = Inr h"
    by (simp add: detachTable_def Let_def lock_def)
  have gone: "n \<notin> fst ` set (Tables_erase n (tables s))"
    by (auto simp: Tables_erase_def)
  show ?thesis
    using dict absent present gone
    by (auto simp: detachTable_snd map_of_Tables_erase map_of_eq_None_iff [symmetric])
qed

theorem detachTable_cases_witness:
  "fst (detachTable ''d1'' example_state) =
     Inl (Exception ''Cannot detach dictionary db.d1 as table, use DETACH DICTIONARY query.''
            UNKNOWN_TABLE)
   \<and> dictionaries (snd (detachTable ''d1'' example_state)) = [''d1'']
   \<and> fst (detachTable ''x'' example_state) =
       Inl (Exception ''Table db.x doesn't exist.'' UNKNOWN_TABLE)
   \<and> fst (detachTable ''t1'' example_state) = Inr (IStorage 1)
   \<and> ''t1'' \<notin> fst ` set (tables (snd (detachTable ''t1'' example_state)))"
  using detachTable_cases [of "''d1''" example_state]
        detachTable_cases [of "''x''" example_state]
        detachTable_cases [of "''t1''" example_state]
  by (simp add: example_state_def)

section \<open>Attaching\<close>

text \<open>
  C7. For every name \<open>n\<close> that is not a key of the table map, \<^verbatim>\<open>attachTable(n, h)\<close>
  succeeds and stores \<open>h\<close> under \<open>n\<close>, whatever the dictionary name set holds (it is not
  consulted and not changed); it fails, with \<^verbatim>\<open>TABLE_ALREADY_EXISTS\<close>, exactly when \<open>n\<close>
  is already a key of the table map.
\<close>

theorem attachTable_no_cross_check:
  "(n \<notin> fst ` set (tables s) \<longrightarrow>
      fst (attachTable n h s) = Inr ()
      \<and> map_of (tables (snd (attachTable n h s))) = (map_of (tables s))(n \<mapsto> h))
   \<and> ((\<exists>e. fst (attachTable n h s) = Inl e) = (n \<in> fst ` set (tables s)))
   \<and> (n \<in> fst ` set (tables s) \<longrightarrow>
      fst (attachTable n h s) =
        Inl (Exception (''Table '' @ name s @ ''.'' @ n @ '' already exists.'')
               TABLE_ALREADY_EXISTS))
   \<and> dictionaries (snd (attachTable n h s)) = dictionaries s"
  by (auto simp: attachTable_fst attachTable_snd map_of_Tables_emplace key_iff)

theorem attachTable_no_cross_check_witness:
  "''d1'' \<in> set (dictionaries example_state)
   \<and> fst (attachTable ''d1'' (IStorage 2) example_state) = Inr ()
   \<and> map_of (tables (snd (attachTable ''d1'' (IStorage 2) example_state))) ''d1''
       = Some (IStorage 2)
   \<and> fst (attachTable ''t1'' (IStorage 2) example_state) =
       Inl (Exception ''Table db.t1 already exists.'' TABLE_ALREADY_EXISTS)"
  using attachTable_no_cross_check [of "''d1''" example_state "IStorage 2"]
        attachTable_no_cross_check [of "''t1''" example_state "IStorage 2"]
  by (simp add: example_state_def)

text \<open>
  C4. For every name \<open>n\<close>, a second \<^verbatim>\<open>attachTable\<close> of \<open>n\<close> right after a first fails with
  \<^verbatim>\<open>TABLE_ALREADY_EXISTS\<close>, and a second \<^verbatim>\<open>attachDictionary\<close> of \<open>n\<close> right after a first
  fails with \<^verbatim>\<open>DICTIONARY_ALREADY_EXISTS\<close> (the spec's AlreadyExists), whatever the
  first call returned; the table map and the dictionary name set after the second call
  are those after the first, and the second \<^verbatim>\<open>attachDictionary\<close> does not call the loader.
\<close>

theorem attach_twice:
  "fst (attachTable n h2 (snd (attachTable n h1 s))) =
     Inl (Exception (''Table '' @ name s @ ''.'' @ n @ '' already exists.'') TABLE_ALREADY_EXISTS)
   \<and> tables (snd (attachTable n h2 (snd (attachTable n h1 s)))) = tables (snd (attachTable n h1 s))
   \<and> dictionaries (snd (attachTable n h2 (snd (attachTable n h1 s))))
       = dictionaries (snd (attachTable n h1 s))
   \<and> fst (attachDictionary n ctx2 load2 (snd (attachDictionary n ctx1 load1 s))) =
       Inl (Exception (''Dictionary '' @ name s @ ''.'' @ n @ '' already exists.'')
              DICTIONARY_ALREADY_EXISTS)
   \<and> tables (snd (attachDictionary n ctx2 load2 (snd (attachDictionary n ctx1 load1 s))))
       = tables (snd (attachDictionary n ctx1 load1 s))
   \<and> dictionaries (snd (attachDictionary n ctx2 load2 (snd (attachDictionary n ctx1 load1 s))))
       = dictionaries (snd (attachDictionary n ctx1 load1 s))
   \<and> calls (snd (attachDictionary n ctx2 load2 (snd (attachDictionary n ctx1 load1 s))))
       = calls (snd (attachDictionary n ctx1 load1 s))"
proof -
  let ?t1 = "snd (attachTable n h1 s)"
  let ?d1 = "snd (attachDictionary n ctx1 load1 s)"
  have key: "map_of (tables ?t1) n \<noteq> None"
    by (simp add: attachTable_snd map_of_Tables_emplace split: option.splits)
  have member: "n \<in> set (dictionaries ?d1)"
    by (simp add: attachDictionary_snd set_Dictionaries_emplace)
  have t_res: "fst (attachTable n h2 ?t1) =
     Inl (Exception (''Table '' @ name s @ ''.'' @ n @ '' already exists.'') TABLE_ALREADY_EXISTS)"
    using key by (simp add: attachTable_fst) (simp add: attachTable_snd)
  have t_same: "fst (Tables_emplace n h2 (tables ?t1)) = tables ?t1"
    using key by (auto simp: Tables_emplace_def split: option.splits)
  have d_same: "fst (Dictionaries_emplace n (dictionaries ?d1)) = dictionaries ?d1"
    using member by (simp add: Dictionaries_emplace_def)
  have d_res: "fst (attachDictionary n ctx2 load2 ?d1) =
       Inl (Exception (''Dictionary '' @ name s @ ''.'' @ n @ '' already exists.'')
              DICTIONARY_ALREADY_EXISTS)"
    using member
    by (simp add: attachDictionary_def [of n ctx2 load2] Let_def lock_def Dictionaries_emplace_def)
       (simp add: attachDictionary_snd)
  have t_tables: "tables (snd (attachTable n h2 ?t1)) = tables ?t1"
    using t_same by (simp add: attachTable_snd [of n h2])
  have t_dicts: "dictionaries (snd (attachTable n h2 ?t1)) = dictionaries ?t1"
    by (simp add: attachTable_snd [of n h2])
  have d_tables: "tables (snd (attachDictionary n ctx2 load2 ?d1)) = tables ?d1"
    by (simp add: attachDictionary_snd [of n ctx2 load2])
  have d_dicts: "dictionaries (snd (attachDictionary n ctx2 load2 ?d1)) = dictionaries ?d1"
    using d_same by (simp add: attachDictionary_snd [of n ctx2 load2])
  have d_calls: "calls (snd (attachDictionary n ctx2 load2 ?d1)) = calls ?d1"
    using member by (simp add: attachDictionary_snd [of n ctx2 load2])
  show ?thesis
    using t_res t_tables t_dicts d_res d_tables d_dicts d_calls by simp
qed

theorem attach_twice_witness:
  "fst (attachTable ''t2'' (IStorage 3) (snd (attachTable ''t2'' (IStorage 2) example_state))) =
     Inl (Exception ''Table db.t2 already exists.'' TABLE_ALREADY_EXISTS)
   \<and> tables (snd (attachTable ''t2'' (IStorage 3) (snd (attachTable ''t2'' (IStorage 2) example_state))))
       = [(''t1'', IStorage 1), (''t2'', IStorage 2)]
   \<and> fst (attachDictionary ''d2'' example_context True
            (snd (attachDictionary ''d2'' example_context True example_state))) =
       Inl (Exception ''Dictionary db.d2 already exists.'' DICTIONARY_ALREADY_EXISTS)
   \<and> dictionaries (snd (attachDictionary ''d2'' example_context True
            (snd (attachDictionary ''d2'' example_context True example_state))))
       = [''d1'', ''d2'']"
  using attach_twice [of "''t2''" "IStorage 3" "IStorage 2" example_state
                         example_context True example_context True]
        attach_twice [of "''d2''" "IStorage 3" "IStorage 2" example_state
                         example_context True example_context True]
  by code_simp

text \<open>
  C10. \<^verbatim>\<open>attachDictionary\<close> and \<^verbatim>\<open>detachDictionary\<close> change the dictionary name set before
  they call the loader's reload. So when \<^verbatim>\<open>attachDictionary(n, load = true)\<close> of a new
  name fails because the reload throws, the caller gets the loader's exception and \<open>n\<close>
  is attached; when \<^verbatim>\<open>detachDictionary(n)\<close> of an attached name fails because the reload
  throws, the caller gets the loader's exception and \<open>n\<close> is detached.
\<close>

theorem dictionary_mutation_survives_reload_failure:
  "(n \<notin> set (dictionaries s)
      \<and> reload ctx (name s @ ''.'' @ n) (\<not> getBool (dictionaries_lazy_load ctx) True) = Some e
      \<longrightarrow>
      fst (attachDictionary n ctx True s) = Inl e
      \<and> set (dictionaries (snd (attachDictionary n ctx True s))) = insert n (set (dictionaries s))
      \<and> fst (isDictionaryExist n (snd (attachDictionary n ctx True s))))
   \<and> (n \<in> set (dictionaries s) \<and> reload ctx (name s @ ''.'' @ n) True = Some e
      \<longrightarrow>
      fst (detachDictionary n ctx s) = Inl e
      \<and> set (dictionaries (snd (detachDictionary n ctx s))) = set (dictionaries s) - {n}
      \<and> \<not> fst (isDictionaryExist n (snd (detachDictionary n ctx s))))"
proof -
  have attach: "n \<notin> set (dictionaries s) \<Longrightarrow>
      reload ctx (name s @ ''.'' @ n) (\<not> getBool (dictionaries_lazy_load ctx) True) = Some e \<Longrightarrow>
      fst (attachDictionary n ctx True s) = Inl e"
    by (simp add: attachDictionary_def Let_def state_ops Dictionaries_emplace_def)
  have detach: "n \<in> set (dictionaries s) \<Longrightarrow> reload ctx (name s @ ''.'' @ n) True = Some e \<Longrightarrow>
      fst (detachDictionary n ctx s) = Inl e"
    by (simp add: detachDictionary_def Let_def state_ops)
  show ?thesis
    using attach detach
    by (auto simp: attachDictionary_snd detachDictionary_snd set_Dictionaries_emplace
                   set_Dictionaries_erase isDictionaryExist_def Let_def lock_def)
qed

theorem dictionary_mutation_survives_reload_failure_witness:
  "fst (attachDictionary ''d2'' failing_context True example_state)
     = Inl (ExternalException ''reload failed'')
   \<and> fst (isDictionaryExist ''d2'' (snd (attachDictionary ''d2'' failing_context True example_state)))
   \<and> fst (detachDictionary ''d1'' failing_context example_state)
     = Inl (ExternalException ''reload failed'')
   \<and> \<not> fst (isDictionaryExist ''d1'' (snd (detachDictionary ''d1'' failing_context example_state)))"
  using dictionary_mutation_survives_reload_failure
          [of "''d2''" example_state failing_context "ExternalException ''reload failed''"]
        dictionary_mutation_survives_reload_failure
          [of "''d1''" example_state failing_context "ExternalException ''reload failed''"]
  by (simp add: example_state_def failing_context_def getBool_def)

section \<open>Shutdown\<close>

lemma count_list_shutdown_calls:
  "count_list (map fst (map (\<lambda>kv. (StorageShutdown (snd kv), b)) ts)) (StorageShutdown h)
     = count_list (map snd ts) h"
  by (induction ts) simp_all

text \<open>
  C6, as the code has it. After a call to \<^verbatim>\<open>shutdown()\<close> during which no table's shutdown
  throws, \<^verbatim>\<open>shutdown()\<close> returns, \<^verbatim>\<open>empty()\<close> is true (the table map and the dictionary
  name set are both cleared), and the calls made are exactly one shutdown per entry that
  the table map had when \<^verbatim>\<open>shutdown()\<close> began, in key order and with the mutex released:
  a handle's shutdown is invoked as many times as the map had entries holding it, once
  when it was attached under one name.
\<close>

theorem shutdown_clears_and_shuts_down_each_entry:
  assumes "\<forall>h \<in> snd ` set (tables s). storage_shutdown h = None"
  shows "fst (shutdown storage_shutdown s) = Inr ()
     \<and> fst (empty (snd (shutdown storage_shutdown s)))
     \<and> tables (snd (shutdown storage_shutdown s)) = []
     \<and> dictionaries (snd (shutdown storage_shutdown s)) = []
     \<and> new_calls s (snd (shutdown storage_shutdown s))
         = map (\<lambda>kv. (StorageShutdown (snd kv), False)) (tables s)
     \<and> (\<forall>h. count_list (map fst (new_calls s (snd (shutdown storage_shutdown s))))
                (StorageShutdown h)
             = count_list (map snd (tables s)) h)"
proof -
  from assms have all: "\<forall>kv \<in> set (tables s). storage_shutdown (snd kv) = None"
    by auto
  have loop: "shutdown_loop storage_shutdown (tables s) (s\<lparr>mutex := False\<rparr>) =
      (None, s\<lparr>mutex := False,
               calls := calls s @ map (\<lambda>kv. (StorageShutdown (snd kv), False)) (tables s)\<rparr>)"
    using shutdown_loop_returns [OF all, of "s\<lparr>mutex := False\<rparr>"] by simp
  have eq: "shutdown storage_shutdown s =
      (Inr (), s\<lparr>tables := [], dictionaries := [], mutex := False,
                 calls := calls s @ map (\<lambda>kv. (StorageShutdown (snd kv), False)) (tables s)\<rparr>)"
    by (simp add: shutdown_def Let_def state_ops loop)
  have new: "new_calls s (snd (shutdown storage_shutdown s))
         = map (\<lambda>kv. (StorageShutdown (snd kv), False)) (tables s)"
    by (simp add: eq new_calls_def)
  have count: "\<And>h. count_list (map fst (new_calls s (snd (shutdown storage_shutdown s))))
                (StorageShutdown h) = count_list (map snd (tables s)) h"
    unfolding new by (rule count_list_shutdown_calls)
  show ?thesis
    using new count by (simp add: eq empty_def Let_def state_ops)
qed

theorem shutdown_clears_and_shuts_down_each_entry_witness:
  "snd ` set (tables example_state) = {IStorage 1}
   \<and> returning_shutdown (IStorage 1) = None
   \<and> fst (shutdown returning_shutdown example_state) = Inr ()
   \<and> fst (empty (snd (shutdown returning_shutdown example_state)))
   \<and> new_calls example_state (snd (shutdown returning_shutdown example_state))
       = [(StorageShutdown (IStorage 1), False)]
   \<and> count_list (map fst (new_calls example_state (snd (shutdown returning_shutdown example_state))))
        (StorageShutdown (IStorage 1)) = 1"
proof -
  have h: "\<forall>h \<in> snd ` set (tables example_state). returning_shutdown h = None"
    by (simp add: returning_shutdown_def)
  have r: "returning_shutdown (IStorage 1) = None"
    by (simp add: returning_shutdown_def)
  show ?thesis
    using r shutdown_clears_and_shuts_down_each_entry [OF h]
    by (simp add: example_state_def)
qed

text \<open>
  C6, as the spec states it, fails when a table's shutdown throws: the exception leaves
  \<^verbatim>\<open>shutdown()\<close> at line 209, the maps are not cleared, and the tables after the throwing
  one are not shut down. Here \<open>t1\<close> throws: \<^verbatim>\<open>empty()\<close> is false afterwards and \<open>t2\<close> saw
  no shutdown.
\<close>

theorem shutdown_throwing_table_counterexample:
  "fst (shutdown throwing_shutdown
          (example_state\<lparr>tables := [(''t1'', IStorage 1), (''t2'', IStorage 2)]\<rparr>))
     = Inl (ExternalException ''shutdown failed'')
   \<and> \<not> fst (empty (snd (shutdown throwing_shutdown
          (example_state\<lparr>tables := [(''t1'', IStorage 1), (''t2'', IStorage 2)]\<rparr>))))
   \<and> calls (snd (shutdown throwing_shutdown
          (example_state\<lparr>tables := [(''t1'', IStorage 1), (''t2'', IStorage 2)]\<rparr>)))
     = [(StorageShutdown (IStorage 1), False)]"
  by (simp add: shutdown_def empty_def Let_def state_ops example_state_def throwing_shutdown_def)

section \<open>The mutex\<close>

lemma run_calls:
  "\<exists>cs. calls (run ctx sh op s) = calls s @ cs \<and> (\<forall>x \<in> set cs. lock_discipline x)"
proof (cases op)
  case Shutdown
  from shutdown_snd [of sh s] obtain k ts ds where
    "snd (shutdown sh s) =
       s\<lparr>tables := ts, dictionaries := ds, mutex := False,
         calls := calls s @ map (\<lambda>kv. (StorageShutdown (snd kv), False)) (take k (tables s))\<rparr>"
    by blast
  then show ?thesis
    by (simp add: Shutdown lock_discipline_def)
next
  case (GetTablesWithDictionaryTablesIterator f)
  then show ?thesis
    by (simp add: getTablesWithDictionaryTablesIterator_eq lock_discipline_def)
qed (simp_all add: isTableExist_snd isDictionaryExist_snd tryGetTable_snd empty_snd
       attachTable_snd detachTable_snd attachDictionary_snd detachDictionary_snd
       getTablesIterator_eq getDictionariesIterator_eq lock_discipline_def)

lemma run_mutex: "\<not> mutex (run ctx sh op s)"
proof (cases op)
  case Shutdown
  from shutdown_snd [of sh s] obtain k ts ds where
    "snd (shutdown sh s) =
       s\<lparr>tables := ts, dictionaries := ds, mutex := False,
         calls := calls s @ map (\<lambda>kv. (StorageShutdown (snd kv), False)) (take k (tables s))\<rparr>"
    by blast
  then show ?thesis
    by (simp add: Shutdown)
qed (simp_all add: isTableExist_snd isDictionaryExist_snd tryGetTable_snd empty_snd
       attachTable_snd detachTable_snd attachDictionary_snd detachDictionary_snd
       getTablesIterator_eq getDictionariesIterator_eq getTablesWithDictionaryTablesIterator_eq)

text \<open>
  C2, as the code has it. In every operation the mutex is released whenever the loader's
  reload or a table's shutdown is called, and it is held whenever the loader's lookup
  \<^verbatim>\<open>tryGetDictionary\<close> is called, which \<^verbatim>\<open>tryGetTable\<close> and
  \<^verbatim>\<open>getTablesWithDictionaryTablesIterator\<close> do from inside their guard; every operation
  ends with the mutex released.
\<close>

theorem mutex_released_for_reload_and_shutdown:
  "(\<forall>x \<in> set (new_calls s (run ctx storage_shutdown op s)). lock_discipline x)
   \<and> \<not> mutex (run ctx storage_shutdown op s)"
proof -
  from run_calls [of ctx storage_shutdown op s] obtain cs where
    "calls (run ctx storage_shutdown op s) = calls s @ cs" and "\<forall>x \<in> set cs. lock_discipline x"
    by blast
  then show ?thesis
    by (simp add: new_calls_def run_mutex)
qed

theorem mutex_released_for_reload_and_shutdown_witness:
  "new_calls example_state (run example_context returning_shutdown (DetachDictionary ''d1'') example_state)
     = [(Reload ''db.d1'' True, False)]
   \<and> lock_discipline (Reload ''db.d1'' True, False)
   \<and> new_calls example_state (run example_context returning_shutdown (AttachDictionary ''d2'' True) example_state)
     = [(Reload ''db.d2'' False, False)]
   \<and> lock_discipline (Reload ''db.d2'' False, False)
   \<and> new_calls example_state (run example_context returning_shutdown Shutdown example_state)
     = [(StorageShutdown (IStorage 1), False)]
   \<and> lock_discipline (StorageShutdown (IStorage 1), False)
   \<and> new_calls example_state (run example_context returning_shutdown (TryGetTable ''d1'') example_state)
     = [(TryGetDictionary ''db.d1'', True)]
   \<and> lock_discipline (TryGetDictionary ''db.d1'', True)
   \<and> \<not> mutex (run example_context returning_shutdown (TryGetTable ''d1'') example_state)"
  using mutex_released_for_reload_and_shutdown
          [of example_state example_context returning_shutdown "DetachDictionary ''d1''"]
        mutex_released_for_reload_and_shutdown
          [of example_state example_context returning_shutdown "AttachDictionary ''d2'' True"]
        mutex_released_for_reload_and_shutdown
          [of example_state example_context returning_shutdown Shutdown]
        mutex_released_for_reload_and_shutdown
          [of example_state example_context returning_shutdown "TryGetTable ''d1''"]
  by (simp add: new_calls_def detachDictionary_snd attachDictionary_snd tryGetTable_snd
        shutdown_def Let_def state_ops getBool_def
        example_state_def example_context_def returning_shutdown_def)

text \<open>
  C2, as the spec states it, fails: \<^verbatim>\<open>tryGetTable\<close> on a dictionary name and
  \<^verbatim>\<open>getTablesWithDictionaryTablesIterator\<close> call the loader while the mutex is held.
\<close>

theorem loader_called_under_mutex_counterexample:
  "calls (snd (tryGetTable example_context ''d1'' example_state))
     = [(TryGetDictionary ''db.d1'', True)]
   \<and> calls (snd (getTablesWithDictionaryTablesIterator example_context None example_state))
     = [(TryGetDictionary ''db.d1'', True)]"
  by (simp add: tryGetTable_snd getTablesWithDictionaryTablesIterator_eq example_state_def)

section \<open>Snapshot iterators\<close>

lemma run_heap: "\<exists>hs. heap (run ctx sh op s) = heap s @ hs"
proof (cases op)
  case Shutdown
  from shutdown_snd [of sh s] obtain k ts ds where
    "snd (shutdown sh s) =
       s\<lparr>tables := ts, dictionaries := ds, mutex := False,
         calls := calls s @ map (\<lambda>kv. (StorageShutdown (snd kv), False)) (take k (tables s))\<rparr>"
    by blast
  then show ?thesis
    by (simp add: Shutdown)
qed (simp_all add: isTableExist_snd isDictionaryExist_snd tryGetTable_snd empty_snd
       attachTable_snd detachTable_snd attachDictionary_snd detachDictionary_snd
       getTablesIterator_eq getDictionariesIterator_eq getTablesWithDictionaryTablesIterator_eq)

lemma run_all_heap: "\<exists>hs. heap (run_all ctx sh ops s) = heap s @ hs"
proof (induction ops arbitrary: s)
  case Nil
  show ?case by (simp add: run_all_def)
next
  case (Cons op ops)
  from run_heap [of ctx sh op s] obtain hs1 where
    h1: "heap (run ctx sh op s) = heap s @ hs1" by blast
  from Cons.IH [of "run ctx sh op s"] obtain hs2 where
    h2: "heap (run_all ctx sh ops (run ctx sh op s)) = heap (run ctx sh op s) @ hs2" by blast
  have "heap (run_all ctx sh (op # ops) s) = heap s @ (hs1 @ hs2)"
    using h1 h2 by (simp add: run_all_def)
  then show ?case by blast
qed

lemma run_all_keeps_object:
  "i < length (heap s) \<Longrightarrow> heap (run_all ctx sh ops s) ! i = heap s ! i"
proof -
  assume i: "i < length (heap s)"
  from run_all_heap [of ctx sh ops s] obtain hs where
    "heap (run_all ctx sh ops s) = heap s @ hs" by blast
  with i show ?thesis by (simp add: nth_append)
qed

text \<open>
  C9. For the iterator returned by \<^verbatim>\<open>getTablesIterator\<close>, \<^verbatim>\<open>getDictionariesIterator\<close> or
  \<^verbatim>\<open>getTablesWithDictionaryTablesIterator\<close>, whatever sequence of operations (attach,
  detach or any other) runs on the database afterwards, the iterator object holds what it
  held when it was created: the entries copied from the state at creation time.
\<close>

theorem snapshot_iterators_are_frozen:
  "heap (run_all ctx sh ops (snd (getTablesIterator f s))) ! fst (getTablesIterator f s)
     = heap (snd (getTablesIterator f s)) ! fst (getTablesIterator f s)
   \<and> heap (snd (getTablesIterator f s)) ! fst (getTablesIterator f s)
     = DatabaseTablesSnapshotIterator
         (case f of None \<Rightarrow> tables s | Some p \<Rightarrow> filter_tables_loop p (tables s) [])
   \<and> heap (run_all ctx sh ops (snd (getDictionariesIterator f s))) ! fst (getDictionariesIterator f s)
     = heap (snd (getDictionariesIterator f s)) ! fst (getDictionariesIterator f s)
   \<and> heap (snd (getDictionariesIterator f s)) ! fst (getDictionariesIterator f s)
     = DatabaseDictionariesSnapshotIterator
         (case f of None \<Rightarrow> dictionaries s
          | Some p \<Rightarrow> filter_dictionaries_loop p (dictionaries s) [])
   \<and> heap (run_all ctx sh ops (snd (getTablesWithDictionaryTablesIterator ctx0 f s)))
       ! fst (getTablesWithDictionaryTablesIterator ctx0 f s)
     = heap (snd (getTablesWithDictionaryTablesIterator ctx0 f s))
       ! fst (getTablesWithDictionaryTablesIterator ctx0 f s)
   \<and> heap (snd (getTablesWithDictionaryTablesIterator ctx0 f s))
       ! fst (getTablesWithDictionaryTablesIterator ctx0 f s)
     = DatabaseTablesSnapshotIterator
         (case f of
            None \<Rightarrow> fst (dictionary_tables_loop ctx0 (dictionaries s) (tables s) (lock s))
          | Some p \<Rightarrow> filter_tables_loop p (tables s) [])"
proof -
  have t: "fst (getTablesIterator f s) < length (heap (snd (getTablesIterator f s)))"
    by (simp add: getTablesIterator_eq)
  have d: "fst (getDictionariesIterator f s) < length (heap (snd (getDictionariesIterator f s)))"
    by (simp add: getDictionariesIterator_eq)
  have td: "fst (getTablesWithDictionaryTablesIterator ctx0 f s)
              < length (heap (snd (getTablesWithDictionaryTablesIterator ctx0 f s)))"
    by (simp add: getTablesWithDictionaryTablesIterator_eq)
  show ?thesis
    using run_all_keeps_object [OF t, of ctx sh ops] run_all_keeps_object [OF d, of ctx sh ops]
          run_all_keeps_object [OF td, of ctx sh ops]
    by (simp add: getTablesIterator_eq getDictionariesIterator_eq
          getTablesWithDictionaryTablesIterator_eq lock_def cong: option.case_cong)
qed

theorem snapshot_iterators_are_frozen_witness:
  "heap (run_all example_context returning_shutdown
           [AttachTable ''t2'' (IStorage 2), DetachTable ''t1'', AttachDictionary ''d2'' False,
            DetachDictionary ''d1'']
           (snd (getTablesIterator None example_state)))
     ! fst (getTablesIterator None example_state)
     = DatabaseTablesSnapshotIterator [(''t1'', IStorage 1)]
   \<and> heap (run_all example_context returning_shutdown
           [AttachTable ''t2'' (IStorage 2), DetachTable ''t1'', AttachDictionary ''d2'' False,
            DetachDictionary ''d1'']
           (snd (getDictionariesIterator None example_state)))
     ! fst (getDictionariesIterator None example_state)
     = DatabaseDictionariesSnapshotIterator [''d1'']
   \<and> tables (run_all example_context returning_shutdown
           [AttachTable ''t2'' (IStorage 2), DetachTable ''t1'', AttachDictionary ''d2'' False,
            DetachDictionary ''d1'']
           (snd (getTablesIterator None example_state)))
     = [(''t2'', IStorage 2)]
   \<and> dictionaries (run_all example_context returning_shutdown
           [AttachTable ''t2'' (IStorage 2), DetachTable ''t1'', AttachDictionary ''d2'' False,
            DetachDictionary ''d1'']
           (snd (getTablesIterator None example_state)))
     = [''d2'']"
  using snapshot_iterators_are_frozen
          [of example_context returning_shutdown
              "[AttachTable ''t2'' (IStorage 2), DetachTable ''t1'', AttachDictionary ''d2'' False,
                DetachDictionary ''d1'']"
              None example_state example_context]
  by (simp add: run_all_def getTablesIterator_eq attachTable_snd detachTable_snd
        attachDictionary_snd detachDictionary_snd Tables_emplace_def Tables_erase_def
        Dictionaries_emplace_def Dictionaries_erase_def example_state_def)

section \<open>Tables together with dictionary views\<close>

text \<open>
  With a filter, the iterator of \<^verbatim>\<open>getTablesWithDictionaryTablesIterator\<close> holds the
  filtered table entries and nothing else: a name that is no table key is not in it,
  whatever the dictionary name set and the loader hold.
\<close>

lemma filtered_iterator_holds_tables_only:
  "heap (snd (getTablesWithDictionaryTablesIterator ctx (Some p) s))
     ! fst (getTablesWithDictionaryTablesIterator ctx (Some p) s)
     = DatabaseTablesSnapshotIterator (filter_tables_loop p (tables s) [])
   \<and> map_of (filter_tables_loop p (tables s) []) n = (if p n then map_of (tables s) n else None)"
  by (simp add: getTablesWithDictionaryTablesIterator_eq filter_tables_loop_map_of)

text \<open>
  Without a filter, the iterator holds every table entry and, for every dictionary name
  that is no table key, the view when the loader has the dictionary.
\<close>

lemma unfiltered_iterator_holds_views:
  "heap (snd (getTablesWithDictionaryTablesIterator ctx None s))
     ! fst (getTablesWithDictionaryTablesIterator ctx None s)
     = DatabaseTablesSnapshotIterator
         (fst (dictionary_tables_loop ctx (dictionaries s) (tables s) (lock s)))
   \<and> map_of (fst (dictionary_tables_loop ctx (dictionaries s) (tables s) (lock s))) n
     = (case map_of (tables s) n of
          Some h \<Rightarrow> Some h
        | None \<Rightarrow>
            if n \<in> set (dictionaries s)
            then map_option (\<lambda>d. StorageDictionary (name s) n (getNamesAndTypes ctx d) True
                                    (name s @ ''.'' @ n))
                   (tryGetDictionary ctx (name s @ ''.'' @ n))
            else None)"
  by (simp add: getTablesWithDictionaryTablesIterator_eq dictionary_tables_loop_map_of
        getDictionaryStorage_fst lock_def cong: option.case_cong)

text \<open>
  C1 on the database \<open>db\<close> with the table \<open>t1\<close> and the dictionary \<open>d1\<close>, which the loader
  has, and a filter that every name passes. The view of \<open>d1\<close> is built (the loader is
  asked for \<open>db.d1\<close>), but the iterator holds \<open>t1\<close> only: lines 101-102 put the view into
  \<^verbatim>\<open>tables_copy\<close> and line 104 returns \<^verbatim>\<open>filtered_tables\<close>. Without a filter the same
  database gives \<open>d1\<close> and \<open>t1\<close>.
\<close>

theorem filtered_iterator_drops_dictionary_views:
  "heap (snd (getTablesWithDictionaryTablesIterator example_context (Some every_name) example_state))
     ! fst (getTablesWithDictionaryTablesIterator example_context (Some every_name) example_state)
     = DatabaseTablesSnapshotIterator [(''t1'', IStorage 1)]
   \<and> calls (snd (getTablesWithDictionaryTablesIterator example_context (Some every_name) example_state))
     = [(TryGetDictionary ''db.d1'', True)]
   \<and> fst (getDictionaryStorage example_context ''d1'' ''db'' example_state)
     = Some (StorageDictionary ''db'' ''d1'' [(''id'', ''UInt64'')] True ''db.d1'')
   \<and> heap (snd (getTablesWithDictionaryTablesIterator example_context None example_state))
     ! fst (getTablesWithDictionaryTablesIterator example_context None example_state)
     = DatabaseTablesSnapshotIterator
         [(''d1'', StorageDictionary ''db'' ''d1'' [(''id'', ''UInt64'')] True ''db.d1''),
          (''t1'', IStorage 1)]"
  by (simp add: getTablesWithDictionaryTablesIterator_def getDictionaryStorage_def
        Tables_emplace_def Let_def state_ops example_state_def example_context_def
        every_name_def)

section \<open>The containers stay well formed\<close>

lemma map_fst_insort_key:
  "map fst (insort_key fst x xs) = insort (fst x) (map fst xs)"
  by (induction xs) simp_all

lemma Tables_emplace_well_formed:
  "sorted (map fst m) \<Longrightarrow> distinct (map fst m) \<Longrightarrow>
   sorted (map fst (fst (Tables_emplace k v m))) \<and> distinct (map fst (fst (Tables_emplace k v m)))"
  by (auto simp: Tables_emplace_def map_fst_insort_key sorted_insort distinct_insort
        map_of_eq_None_iff split: option.splits)

lemma Tables_erase_well_formed:
  "sorted (map fst m) \<Longrightarrow> distinct (map fst m) \<Longrightarrow>
   sorted (map fst (Tables_erase k m)) \<and> distinct (map fst (Tables_erase k m))"
  by (simp add: Tables_erase_def sorted_filter distinct_map_filter)

lemma Dictionaries_emplace_well_formed:
  "sorted d \<Longrightarrow> distinct d \<Longrightarrow>
   sorted (fst (Dictionaries_emplace k d)) \<and> distinct (fst (Dictionaries_emplace k d))"
  by (simp add: Dictionaries_emplace_def sorted_insort distinct_insort)

lemma Dictionaries_erase_well_formed:
  "sorted d \<Longrightarrow> distinct d \<Longrightarrow>
   sorted (Dictionaries_erase k d) \<and> distinct (Dictionaries_erase k d)"
  using sorted_filter [of "\<lambda>x. x" d] by (simp add: Dictionaries_erase_def)

text \<open>
  Every operation keeps the table map and the dictionary name set in key order and free
  of duplicate keys, so erasing the entry found under a key removes the key.
\<close>

lemma run_well_formed:
  assumes "well_formed s"
  shows "well_formed (run ctx sh op s)"
proof (cases op)
  case Shutdown
  obtain r s3 where l: "shutdown_loop sh (tables s) (s\<lparr>mutex := False\<rparr>) = (r, s3)"
    by (cases "shutdown_loop sh (tables s) (s\<lparr>mutex := False\<rparr>)")
  from shutdown_loop_snd [of sh "tables s" "s\<lparr>mutex := False\<rparr>"] l
  obtain k where s3: "s3 = s\<lparr>mutex := False, calls := calls s @
       map (\<lambda>kv. (StorageShutdown (snd kv), False)) (take k (tables s))\<rparr>"
    by auto
  show ?thesis
    using assms
    by (cases r) (simp_all add: Shutdown shutdown_def Let_def state_ops l s3 well_formed_def)
next
  case (AttachTable n h)
  then show ?thesis
    using assms Tables_emplace_well_formed [of "tables s" n h]
    by (simp add: attachTable_snd well_formed_def)
next
  case (DetachTable n)
  then show ?thesis
    using assms Tables_erase_well_formed [of "tables s" n]
    by (simp add: detachTable_snd well_formed_def)
next
  case (AttachDictionary n load)
  then show ?thesis
    using assms Dictionaries_emplace_well_formed [of "dictionaries s" n]
    by (simp add: attachDictionary_snd well_formed_def)
next
  case (DetachDictionary n)
  then show ?thesis
    using assms Dictionaries_erase_well_formed [of "dictionaries s" n]
    by (simp add: detachDictionary_snd well_formed_def)
qed (use assms in \<open>simp_all add: isTableExist_snd isDictionaryExist_snd tryGetTable_snd empty_snd
       getTablesIterator_eq getDictionariesIterator_eq getTablesWithDictionaryTablesIterator_eq
       well_formed_def\<close>)

end
